theory Spec2Isabelle
  imports Main "HOL-Library.AList"
begin

section \<open>Text primitives of the host language\<close>

text \<open>
  The notification parser \<^verbatim>\<open>cleanjsondata.py\<close> works on Python strings. A string is
  modelled as a list of characters, one \<^typ>\<open>char\<close> per code point, which covers the code
  points below 256. The character classes below are the ones the interpreter uses for
  \<^verbatim>\<open>str.strip\<close>, \<^verbatim>\<open>str.lower\<close>, \<^verbatim>\<open>str.splitlines\<close> and for \<^verbatim>\<open>\s\<close>, \<^verbatim>\<open>\d\<close>, \<^verbatim>\<open>\w\<close>
  in that range.
\<close>

definition is_space :: "char \<Rightarrow> bool" where
  "is_space c \<longleftrightarrow> c \<in> set [CHR 0x09, CHR 0x0A, CHR 0x0B, CHR 0x0C, CHR 0x0D,
                         CHR 0x1C, CHR 0x1D, CHR 0x1E, CHR 0x1F, CHR 0x20, CHR 0x85, CHR 0xA0]"

definition is_digit :: "char \<Rightarrow> bool" where
  "is_digit c \<longleftrightarrow> c \<in> set ''0123456789''"

definition is_linebreak :: "char \<Rightarrow> bool" where
  "is_linebreak c \<longleftrightarrow> c \<in> set [CHR 0x0A, CHR 0x0B, CHR 0x0C, CHR 0x0D,
                             CHR 0x1C, CHR 0x1D, CHR 0x1E, CHR 0x85]"

definition is_word :: "char \<Rightarrow> bool" where
  "is_word c \<longleftrightarrow>
     (let n = (of_char c :: nat)
      in (48 \<le> n \<and> n \<le> 57) \<or> (65 \<le> n \<and> n \<le> 90) \<or> n = 95 \<or> (97 \<le> n \<and> n \<le> 122)
         \<or> n \<in> set [170, 178, 179, 181, 185, 186, 188, 189, 190]
         \<or> (192 \<le> n \<and> n \<noteq> 215 \<and> n \<noteq> 247))"

definition lower_char :: "char \<Rightarrow> char" where
  "lower_char c =
     (let n = (of_char c :: nat)
      in if (65 \<le> n \<and> n \<le> 90) \<or> (192 \<le> n \<and> n \<le> 222 \<and> n \<noteq> 215)
         then char_of (n + 32) else c)"

definition lower :: "string \<Rightarrow> string" where
  "lower s = map lower_char s"

definition lstrip :: "string \<Rightarrow> string" where
  "lstrip s = dropWhile is_space s"

definition rstrip :: "string \<Rightarrow> string" where
  "rstrip s = rev (dropWhile is_space (rev s))"

definition strip :: "string \<Rightarrow> string" where
  "strip s = rstrip (lstrip s)"

text \<open>\<^verbatim>\<open>s.strip(chars)\<close>: removes leading and trailing characters that occur in \<open>chars\<close>.\<close>

definition strip_chars :: "string \<Rightarrow> string \<Rightarrow> string" where
  "strip_chars chars s =
     rev (dropWhile (\<lambda>c. c \<in> set chars) (rev (dropWhile (\<lambda>c. c \<in> set chars) s)))"

fun starts_with :: "string \<Rightarrow> string \<Rightarrow> bool" where
  "starts_with [] s = True"
| "starts_with (x # xs) [] = False"
| "starts_with (x # xs) (c # cs) = (x = c \<and> starts_with xs cs)"

text \<open>\<^verbatim>\<open>sub in s\<close>.\<close>

fun contains :: "string \<Rightarrow> string \<Rightarrow> bool" where
  "contains sub [] = (sub = [])"
| "contains sub (c # cs) = (starts_with sub (c # cs) \<or> contains sub cs)"

text \<open>\<^verbatim>\<open>s.split(sep, 1)[0]\<close> for a non-empty separator: the text before its first occurrence,
  all of \<open>s\<close> when there is none.\<close>

fun before_first :: "string \<Rightarrow> string \<Rightarrow> string" where
  "before_first sep [] = []"
| "before_first sep (c # cs) =
     (if starts_with sep (c # cs) then [] else c # before_first sep cs)"

text \<open>\<^verbatim>\<open>s.replace(a, b)\<close> for single characters.\<close>

definition replace_char :: "char \<Rightarrow> char \<Rightarrow> string \<Rightarrow> string" where
  "replace_char a b s = map (\<lambda>c. if c = a then b else c) s"

text \<open>\<^verbatim>\<open>s.splitlines()\<close>: a carriage return followed by a line feed is one boundary, and a
  final boundary does not open an empty last line. The first argument collects the
  current line in reverse.\<close>

fun splitlines_acc :: "string \<Rightarrow> string \<Rightarrow> string list" where
  "splitlines_acc cur [] = (if cur = [] then [] else [rev cur])"
| "splitlines_acc cur (c # cs) =
     (if c = CHR 0x0D then
        (case cs of
           [] \<Rightarrow> rev cur # splitlines_acc [] cs
         | d # ds \<Rightarrow>
             if d = CHR 0x0A then rev cur # splitlines_acc [] ds
             else rev cur # splitlines_acc [] cs)
      else if is_linebreak c then rev cur # splitlines_acc [] cs
      else splitlines_acc (c # cur) cs)"

definition splitlines :: "string \<Rightarrow> string list" where
  "splitlines s = splitlines_acc [] s"

text \<open>\<^verbatim>\<open>sep.join(xs)\<close>.\<close>

fun join :: "string \<Rightarrow> string list \<Rightarrow> string" where
  "join sep [] = []"
| "join sep [x] = x"
| "join sep (x # y # ys) = x @ sep @ join sep (y # ys)"

text \<open>\<^verbatim>\<open>str(n)\<close> for an integer.\<close>

fun show_nat :: "nat \<Rightarrow> string" where
  "show_nat n =
     (if n < 10 then [char_of (48 + n)]
      else show_nat (n div 10) @ [char_of (48 + n mod 10)])"

definition show_int :: "int \<Rightarrow> string" where
  "show_int i = (if i < 0 then CHR ''-'' # show_nat (nat (- i)) else show_nat (nat i))"

text \<open>
  \<^verbatim>\<open>int(s)\<close> for a string: surrounding whitespace is ignored, one sign is allowed, and
  the digits may be separated by single underscores. \<open>None\<close> stands for the
  \<^verbatim>\<open>ValueError\<close> of a malformed literal. (The interpreter's configurable limit on the
  number of digits is not part of the model.)
\<close>

definition digit_val :: "char \<Rightarrow> nat" where
  "digit_val c = of_char c - 48"

fun parse_digits :: "nat \<Rightarrow> string \<Rightarrow> nat option" where
  "parse_digits acc [] = Some acc"
| "parse_digits acc (c # cs) =
     (if is_digit c then parse_digits (10 * acc + digit_val c) cs
      else if c = CHR ''_'' then
        (case cs of
           [] \<Rightarrow> None
         | d # ds \<Rightarrow> if is_digit d then parse_digits (10 * acc + digit_val d) ds else None)
      else None)"

definition parse_nat :: "string \<Rightarrow> nat option" where
  "parse_nat s =
     (case s of [] \<Rightarrow> None
      | c # cs \<Rightarrow> if is_digit c then parse_digits (digit_val c) cs else None)"

definition py_int :: "string \<Rightarrow> int option" where
  "py_int s =
     (case strip s of
        [] \<Rightarrow> None
      | c # cs \<Rightarrow>
          if c = CHR ''-'' then map_option (\<lambda>n. - int n) (parse_nat cs)
          else if c = CHR ''+'' then map_option int (parse_nat cs)
          else map_option int (parse_nat (c # cs)))"

section \<open>Regular expressions\<close>

text \<open>
  The patterns of the program use literals, quantified character classes (greedy and
  lazy, with or without a capturing group around them), an optional non-capturing group,
  an alternation, the end anchor and the word boundary. A pattern is a sequence of such
  items. The flags of \<^verbatim>\<open>re.compile\<close> are written into the items: \<open>Lit True\<close> is a literal
  under \<^verbatim>\<open>re.IGNORECASE\<close>, \<open>Dot\<close> is \<^verbatim>\<open>.\<close> without \<^verbatim>\<open>re.DOTALL\<close> and \<open>AnyChar\<close> is \<^verbatim>\<open>.\<close>
  with it.
\<close>

datatype cclass = Dot | AnyChar | Digit | Space | NotRParen

fun in_class :: "cclass \<Rightarrow> char \<Rightarrow> bool" where
  "in_class Dot c = (c \<noteq> CHR 0x0A)"
| "in_class AnyChar c = True"
| "in_class Digit c = is_digit c"
| "in_class Space c = is_space c"
| "in_class NotRParen c = (c \<noteq> CHR '')'')"

datatype greed = Greedy | Lazy

datatype gkey = GName string | GNum nat

datatype item =
    Lit bool string
  | Star "gkey option" cclass greed
  | Plus "gkey option" cclass greed
  | Opt "item list"
  | Alt "item list" "item list"
  | Eos
  | WordB

type_synonym groups = "(gkey \<times> string) list"

fun bind :: "gkey option \<Rightarrow> string \<Rightarrow> groups \<Rightarrow> groups" where
  "bind None v g = g"
| "bind (Some n) v g = (n, v) # g"

text \<open>Consuming a literal; the character before the current position is carried along
  for the word boundary.\<close>

fun eat :: "bool \<Rightarrow> string \<Rightarrow> char option \<Rightarrow> string \<Rightarrow> (char option \<times> string) option" where
  "eat ci [] p s = Some (p, s)"
| "eat ci (l # ls) p [] = None"
| "eat ci (l # ls) p (c # cs) =
     (if (if ci then lower_char c = lower_char l else c = l) then eat ci ls (Some c) cs
      else None)"

definition at_boundary :: "char option \<Rightarrow> string \<Rightarrow> bool" where
  "at_boundary p s \<longleftrightarrow>
     (case p of None \<Rightarrow> False | Some c \<Rightarrow> is_word c)
       \<noteq> (case s of [] \<Rightarrow> False | c # _ \<Rightarrow> is_word c)"

text \<open>
  The backtracking matcher. \<open>rmatch items p s\<close> matches the items at the start of \<open>s\<close>
  (\<open>p\<close> is the character before it) and returns the groups of the first successful
  alternative in the engine's order of preference, with the text left over. \<open>rep\<close> is the
  loop of a quantified class: a lazy one tries the rest of the pattern before it takes
  another character, a greedy one takes characters first and gives them back one by one.
\<close>

fun rmatch :: "item list \<Rightarrow> char option \<Rightarrow> string \<Rightarrow> (groups \<times> string) option"
and rep :: "greed \<Rightarrow> cclass \<Rightarrow> gkey option \<Rightarrow> item list \<Rightarrow> string \<Rightarrow> char option \<Rightarrow> string
             \<Rightarrow> (groups \<times> string) option" where
  "rmatch [] p s = Some ([], s)"
| "rmatch (Lit ci l # r) p s =
     (case eat ci l p s of None \<Rightarrow> None | Some (p', s') \<Rightarrow> rmatch r p' s')"
| "rmatch (Star n k g # r) p s = rep g k n r [] p s"
| "rmatch (Plus n k g # r) p s =
     (case s of [] \<Rightarrow> None
      | c # cs \<Rightarrow> if in_class k c then rep g k n r [c] (Some c) cs else None)"
| "rmatch (Opt a # r) p s =
     (case rmatch (a @ r) p s of Some m \<Rightarrow> Some m | None \<Rightarrow> rmatch r p s)"
| "rmatch (Alt a b # r) p s =
     (case rmatch (a @ r) p s of Some m \<Rightarrow> Some m | None \<Rightarrow> rmatch (b @ r) p s)"
| "rmatch (Eos # r) p s = (if s = [] \<or> s = [CHR 0x0A] then rmatch r p s else None)"
| "rmatch (WordB # r) p s = (if at_boundary p s then rmatch r p s else None)"
| "rep Lazy k n r acc p s =
     (case rmatch r p s of
        Some (g, rest) \<Rightarrow> Some (bind n (rev acc) g, rest)
      | None \<Rightarrow>
          (case s of [] \<Rightarrow> None
           | c # cs \<Rightarrow> if in_class k c then rep Lazy k n r (c # acc) (Some c) cs else None))"
| "rep Greedy k n r acc p s =
     (case (case s of [] \<Rightarrow> None
            | c # cs \<Rightarrow>
                if in_class k c then rep Greedy k n r (c # acc) (Some c) cs else None) of
        Some m \<Rightarrow> Some m
      | None \<Rightarrow>
          (case rmatch r p s of
             Some (g, rest) \<Rightarrow> Some (bind n (rev acc) g, rest)
           | None \<Rightarrow> None))"

text \<open>A match object: the text before the match, the groups, the text after it.\<close>

record rematch =
  pre :: string
  grps :: groups
  post :: string

text \<open>\<^verbatim>\<open>pattern.search(s)\<close>: the leftmost position at which the pattern matches.\<close>

fun search_from :: "item list \<Rightarrow> string \<Rightarrow> string \<Rightarrow> rematch option" where
  "search_from items bef s =
     (case rmatch items (case bef of [] \<Rightarrow> None | c # _ \<Rightarrow> Some c) s of
        Some (g, rest) \<Rightarrow> Some \<lparr>pre = rev bef, grps = g, post = rest\<rparr>
      | None \<Rightarrow> (case s of [] \<Rightarrow> None | c # cs \<Rightarrow> search_from items (c # bef) cs))"

definition re_search :: "item list \<Rightarrow> string \<Rightarrow> rematch option" where
  "re_search items s = search_from items [] s"

text \<open>\<^verbatim>\<open>match.group(i)\<close> and \<^verbatim>\<open>match.groupdict()\<close>; a group that took no part in the match
  is \<open>None\<close>.\<close>

definition group :: "rematch \<Rightarrow> nat \<Rightarrow> string option" where
  "group m i = map_of (grps m) (GNum i)"

fun item_names :: "item \<Rightarrow> string list" where
  "item_names (Star (Some (GName n)) k g) = [n]"
| "item_names (Plus (Some (GName n)) k g) = [n]"
| "item_names (Opt a) = concat (map item_names a)"
| "item_names (Alt a b) = concat (map item_names a) @ concat (map item_names b)"
| "item_names i = []"

definition groupdict :: "item list \<Rightarrow> rematch \<Rightarrow> (string \<times> string option) list" where
  "groupdict items m =
     map (\<lambda>n. (n, map_of (grps m) (GName n))) (concat (map item_names items))"

text \<open>\<^verbatim>\<open>re.split(pattern, s, 1)[0]\<close> for a pattern that matches no empty text.\<close>

definition re_split_first :: "item list \<Rightarrow> string \<Rightarrow> string" where
  "re_split_first items s = (case re_search items s of None \<Rightarrow> s | Some m \<Rightarrow> pre m)"

section \<open>The notification parser\<close>

subsection \<open>Data\<close>

record SurveyEntry =
  ticket_number :: int
  summary :: string
  customer_feedback :: string

text \<open>A notification of the input batch; a field is \<open>None\<close> when the object has no such key
  (\<^verbatim>\<open>email.get(key, "")\<close> reads it).\<close>

record email =
  Subject :: "string option"
  FullBody :: "string option"

datatype error = ValueError | TypeError | AttributeError

text \<open>The dictionary a match is turned into: group names with optional strings.\<close>

type_synonym match_data = "(string \<times> string option) list"

text \<open>\<^verbatim>\<open>d.get(k)\<close>: \<open>None\<close> for a missing key and for a key bound to \<open>None\<close>.\<close>

definition dict_get :: "match_data \<Rightarrow> string \<Rightarrow> string option" where
  "dict_get d k = (case map_of d k of None \<Rightarrow> None | Some v \<Rightarrow> v)"

subsection \<open>Patterns\<close>

abbreviation lit :: "string \<Rightarrow> item" where
  "lit \<equiv> Lit True"

abbreviation grp :: "string \<Rightarrow> item" where
  "grp n \<equiv> Plus (Some (GName n)) Dot Lazy"

abbreviation ticket_id :: item where
  "ticket_id \<equiv> Plus (Some (GName ''ticket_id'')) Digit Greedy"

abbreviation ticket_desc :: item where
  "ticket_desc \<equiv> Star (Some (GName ''ticket_desc'')) NotRParen Lazy"

abbreviation spaces :: item where
  "spaces \<equiv> Star None Space Greedy"

definition RATING_PATTERNS :: "item list list" where
  "RATING_PATTERNS =
   [ [grp ''customer'', lit '' from '', grp ''company'', lit '' gave a '', grp ''rating'',
      lit '' rating to '', grp ''employee'', lit '' for '', grp ''categories'',
      lit '' on ticket# '', ticket_id, spaces, lit ''('', ticket_desc, lit '')''],
     [grp ''customer'', lit '' from '', grp ''company'', lit '' gave a '', grp ''rating'',
      lit '' rating for '', grp ''categories'', lit '' on ticket# '', ticket_id, spaces,
      lit ''('', ticket_desc, lit '')'', spaces, lit ''to '', Opt [lit ''your colleague ''],
      grp ''employee'', Alt [lit ''.''] [Eos]],
     [grp ''company'', lit '' gave a '', grp ''rating'', lit '' rating to '', grp ''employee'',
      lit '' for '', grp ''categories'', lit '' on ticket# '', ticket_id, spaces,
      lit ''('', ticket_desc, lit '')''],
     [grp ''customer'', lit '' from '', grp ''company'', lit '' gave a '', grp ''rating'',
      lit '' rating to '', grp ''employee'', lit '' for ticket# '', ticket_id, spaces,
      lit ''('', ticket_desc, lit '')''],
     [grp ''company'', lit '' gave a '', grp ''rating'', lit '' rating to '', grp ''employee'',
      lit '' for ticket# '', ticket_id, spaces, lit ''('', ticket_desc, lit '')''],
     [grp ''company'', lit '' gave a '', grp ''rating'', lit '' rating for ticket# '',
      ticket_id, spaces, lit ''('', ticket_desc, lit '')'', spaces, lit ''to '',
      Opt [lit ''your colleague ''], grp ''employee'', Alt [lit ''.''] [Eos]] ]"

definition FEEDBACK_PATTERN :: "item list" where
  "FEEDBACK_PATTERN =
     [lit ''Customer feedback:'', spaces, Star (Some (GNum 1)) AnyChar Greedy]"

definition TICKET_ID_PATTERN :: "item list" where
  "TICKET_ID_PATTERN = [lit ''ticket#'', spaces, Plus (Some (GNum 1)) Digit Greedy]"

text \<open>The pattern \<^verbatim>\<open>\bClick here\b|Regards,\<close> that \<^verbatim>\<open>extract_feedback\<close> splits at.\<close>

definition BOUNDARY_PATTERN :: "item list" where
  "BOUNDARY_PATTERN = [Alt [WordB, Lit False ''Click here'', WordB] [Lit False ''Regards,'']]"

subsection \<open>Helpers\<close>

fun coalesce :: "string option list \<Rightarrow> string \<Rightarrow> string" where
  "coalesce [] dflt = dflt"
| "coalesce (None # vals) dflt = coalesce vals dflt"
| "coalesce (Some v # vals) dflt =
     (let text = strip v in if text \<noteq> [] then text else coalesce vals dflt)"

text \<open>\<^verbatim>\<open>re.sub(r"\s+", " ", text)\<close>: every maximal run of whitespace becomes one space.\<close>

function sub_ws :: "string \<Rightarrow> string" where
  "sub_ws [] = []"
| "sub_ws (c # cs) =
     (if is_space c then CHR '' '' # sub_ws (dropWhile is_space cs) else c # sub_ws cs)"
  by pat_completeness auto
termination
  by (relation "measure length") (auto simp: less_Suc_eq_le length_dropWhile_le)

definition normalize_text :: "string \<Rightarrow> string" where
  "normalize_text v = sub_ws (strip v)"

definition NO_FEEDBACK :: string where
  "NO_FEEDBACK = ''No feedback provided.''"

text \<open>The text \<^verbatim>\<open>extract_feedback\<close> keeps of the first group of the feedback pattern.\<close>

definition feedback_text :: "string \<Rightarrow> string" where
  "feedback_text g1 =
     (let feedback = strip g1;
          feedback = strip_chars [CHR 0x22] feedback;
          feedback = before_first [CHR 0x0A, CHR 0x0A] feedback;
          feedback = re_split_first BOUNDARY_PATTERN feedback;
          lines = splitlines (replace_char (CHR 0x0D) (CHR 0x0A) feedback)
      in join '' '' (map strip (filter (\<lambda>line. strip line \<noteq> []) lines)))"

definition extract_feedback :: "string \<Rightarrow> error + string" where
  "extract_feedback full_body =
     (case re_search FEEDBACK_PATTERN full_body of
        None \<Rightarrow> Inr NO_FEEDBACK
      | Some m \<Rightarrow>
          (case group m 1 of
             None \<Rightarrow> Inl AttributeError
           | Some g1 \<Rightarrow>
               (let feedback = feedback_text g1
                in Inr (if feedback \<noteq> [] then feedback else NO_FEEDBACK))))"

definition cleaned_lines :: "string \<Rightarrow> string list" where
  "cleaned_lines full_body =
     map strip (filter (\<lambda>line. contains ''rating'' (lower line)) (splitlines full_body))"

definition match_dict :: "item list \<Rightarrow> rematch \<Rightarrow> match_data" where
  "match_dict pattern m =
     map (\<lambda>(k, v). (k, map_option normalize_text v)) (groupdict pattern m)"

fun try_patterns :: "item list list \<Rightarrow> string \<Rightarrow> match_data option" where
  "try_patterns [] line = None"
| "try_patterns (pattern # patterns) line =
     (case re_search pattern line of
        Some m \<Rightarrow> Some (match_dict pattern m)
      | None \<Rightarrow> try_patterns patterns line)"

fun scan_lines :: "string list \<Rightarrow> match_data option" where
  "scan_lines [] = None"
| "scan_lines (line # lines) =
     (case try_patterns RATING_PATTERNS line of
        Some d \<Rightarrow> Some d
      | None \<Rightarrow> scan_lines lines)"

definition match_rating_line :: "string \<Rightarrow> match_data option" where
  "match_rating_line full_body = scan_lines (cleaned_lines full_body)"

text \<open>\<^verbatim>\<open>a or b\<close> on optional strings: \<open>a\<close> when it is a non-empty string, else \<open>b\<close>.\<close>

definition py_or :: "string option \<Rightarrow> string option \<Rightarrow> string option" where
  "py_or a b = (case a of None \<Rightarrow> b | Some v \<Rightarrow> if v \<noteq> [] then Some v else b)"

definition ticket_field :: "match_data \<Rightarrow> string option" where
  "ticket_field match_data =
     py_or (dict_get match_data ''ticket_id'') (dict_get match_data ''ticket_number'')"

definition summary_sentence :: "match_data \<Rightarrow> int \<Rightarrow> string" where
  "summary_sentence match_data n =
     (let employee = coalesce [dict_get match_data ''employee''] ''Unknown technician'';
          company = coalesce [dict_get match_data ''company''] ''Unknown company'';
          customer = coalesce [dict_get match_data ''customer''] ''A customer'';
          rating = coalesce [dict_get match_data ''rating''] ''Positive'';
          categories =
            coalesce [dict_get match_data ''categories''] ''(categories not provided)'';
          ticket_desc = coalesce [dict_get match_data ''ticket_desc''] []
      in customer @ '' from '' @ company @ '' just gave a '' @ rating @ '' rating to ''
         @ employee @ '' for '' @ categories @ '' on ticket# '' @ show_int n
         @ '' ('' @ ticket_desc @ '').'')"

definition build_summary :: "match_data \<Rightarrow> error + SurveyEntry option" where
  "build_summary match_data =
     (case ticket_field match_data of
        None \<Rightarrow> Inr None
      | Some t \<Rightarrow>
          if t = [] then Inr None
          else
            (case py_int t of
               None \<Rightarrow> Inl ValueError
             | Some n \<Rightarrow>
                 Inr (Some \<lparr>ticket_number = n,
                            summary = summary_sentence match_data n,
                            customer_feedback = []\<rparr>)))"

subsection \<open>The driver\<close>

text \<open>
  The state of the loop of \<^verbatim>\<open>parse_crewhu_data\<close>: the dictionary \<^verbatim>\<open>surveys\<close>, kept in
  insertion order as the interpreter keeps it (a new key goes to the end, an old key keeps
  its place), and the list \<^verbatim>\<open>missed\<close>. Reading and writing the files is outside the
  model: the batch is the list of notifications.
\<close>

record loop_state =
  surveys :: "(int \<times> SurveyEntry) list"
  missed :: "int list"

definition subject_of :: "email \<Rightarrow> string" where
  "subject_of e = (case Subject e of None \<Rightarrow> [] | Some s \<Rightarrow> s)"

definition full_body_of :: "email \<Rightarrow> string" where
  "full_body_of e = (case FullBody e of None \<Rightarrow> [] | Some s \<Rightarrow> s)"

text \<open>The bookkeeping for a notification that matched no template.\<close>

definition note_missed :: "string \<Rightarrow> loop_state \<Rightarrow> error + loop_state" where
  "note_missed full_body st =
     (case re_search TICKET_ID_PATTERN full_body of
        None \<Rightarrow> Inr st
      | Some raw_ticket \<Rightarrow>
          (case group raw_ticket 1 of
             None \<Rightarrow> Inl TypeError
           | Some d \<Rightarrow>
               (case py_int d of
                  None \<Rightarrow> Inl ValueError
                | Some ticket_num \<Rightarrow>
                    if map_of (surveys st) ticket_num = None
                    then Inr (st\<lparr>missed := missed st @ [ticket_num]\<rparr>)
                    else Inr st)))"

text \<open>One round of the loop; \<open>Inl\<close> is an exception that leaves the function.\<close>

definition process_email :: "email \<Rightarrow> loop_state \<Rightarrow> error + loop_state" where
  "process_email e st =
     (let subject = subject_of e; full_body = full_body_of e
      in if \<not> contains ''rating'' (lower subject) then Inr st
         else
           (case match_rating_line full_body of
              None \<Rightarrow> note_missed full_body st
            | Some match_data \<Rightarrow>
                if match_data = [] then note_missed full_body st
                else
                  (case build_summary match_data of
                     Inl err \<Rightarrow> Inl err
                   | Inr None \<Rightarrow> Inr st
                   | Inr (Some survey_entry) \<Rightarrow>
                       (case extract_feedback full_body of
                          Inl err \<Rightarrow> Inl err
                        | Inr fb \<Rightarrow>
                            Inr (st\<lparr>surveys :=
                                   AList.update (ticket_number survey_entry)
                                     (survey_entry\<lparr>customer_feedback := fb\<rparr>)
                                     (surveys st)\<rparr>)))))"

fun run_loop :: "email list \<Rightarrow> loop_state \<Rightarrow> error + loop_state" where
  "run_loop [] st = Inr st"
| "run_loop (e # es) st =
     (case process_email e st of Inl err \<Rightarrow> Inl err | Inr st' \<Rightarrow> run_loop es st')"

definition initial_state :: loop_state where
  "initial_state = \<lparr>surveys = [], missed = []\<rparr>"

definition parse_crewhu_data :: "email list \<Rightarrow> error + SurveyEntry list" where
  "parse_crewhu_data emails =
     (case run_loop emails initial_state of
        Inl err \<Rightarrow> Inl err
      | Inr st \<Rightarrow> Inr (sort_key ticket_number (map snd (surveys st))))"

subsection \<open>Normal form of normalised text\<close>

text \<open>A text is tidy when it has no whitespace but single spaces, each between two
  characters that are not whitespace.\<close>

fun tidy :: "string \<Rightarrow> bool" where
  "tidy [] = True"
| "tidy [c] = (\<not> is_space c)"
| "tidy (c # d # cs) =
     (\<not> is_space c \<and> (if d = CHR '' '' then cs \<noteq> [] \<and> tidy cs else tidy (d # cs)))"

subsection \<open>Shapes of patterns\<close>



subsection \<open>Notions for stating the driver's properties\<close>




subsection \<open>Notions for stating the extractors' properties\<close>

text \<open>The marker of the feedback extractor occurs in a body, in any letter case; and the
  text that follows its first occurrence.\<close>

definition MARKER :: string where
  "MARKER = ''customer feedback:''"

definition has_marker :: "string \<Rightarrow> bool" where
  "has_marker full_body \<longleftrightarrow> contains MARKER (lower full_body)"

fun after_first :: "string \<Rightarrow> string \<Rightarrow> string" where
  "after_first mk [] = []"
| "after_first mk (c # cs) =
     (if starts_with mk (lower (c # cs)) then drop (length mk) (c # cs)
      else after_first mk cs)"

definition after_marker :: "string \<Rightarrow> string" where
  "after_marker full_body = after_first MARKER full_body"

text \<open>The pairs of a line and a template that match, lines first, templates in the order
  of the list.\<close>

definition matching_pairs :: "string list \<Rightarrow> (string \<times> item list) list" where
  "matching_pairs ls =
     concat (map (\<lambda>l. map (Pair l) (filter (\<lambda>p. re_search p l \<noteq> None) RATING_PATTERNS)) ls)"

section \<open>Evaluation\<close>

text \<open>Lower-casing by the bits of the character, for evaluation.\<close>

lemma lower_char_code [code]:
  "lower_char (Char b0 b1 b2 b3 b4 b5 b6 b7) =
     (if b6 \<and> \<not> b5 \<and>
         (if b7 then \<not> (b0 \<and> b1 \<and> b2 \<and> b4)
          else (b0 \<or> b1 \<or> b2 \<or> b3 \<or> b4) \<and> \<not> (b4 \<and> b3 \<and> (b2 \<or> (b1 \<and> b0))))
      then Char b0 b1 b2 b3 b4 True b6 b7
      else Char b0 b1 b2 b3 b4 b5 b6 b7)"
  by (cases b0; cases b1; cases b2; cases b3; cases b4; cases b5; cases b6; cases b7;
      simp add: lower_char_def; code_simp)

section \<open>The text normaliser\<close>

lemma tidy_hd: "tidy r \<Longrightarrow> r \<noteq> [] \<Longrightarrow> \<not> is_space (hd r)"
  by (induction r rule: tidy.induct) auto

lemma tidy_last: "tidy r \<Longrightarrow> r \<noteq> [] \<Longrightarrow> \<not> is_space (last r)"
  by (induction r rule: tidy.induct) (auto split: if_splits)

lemma space_is_space: "is_space (CHR '' '')"
  by (simp add: is_space_def)

lemma tidy_sub_ws: "tidy r \<Longrightarrow> sub_ws r = r"
proof (induction r rule: tidy.induct)
  case (3 c d cs)
  show ?case
  proof (cases "d = CHR '' ''")
    case True
    with 3 have cs: "cs \<noteq> []" "tidy cs" "\<not> is_space c" by auto
    then have "dropWhile is_space cs = cs"
      using tidy_hd[of cs] by (cases cs) auto
    with 3 True cs show ?thesis by (simp add: space_is_space)
  next
    case False
    with 3 show ?thesis by auto
  qed
qed auto

lemma tidy_strip: "tidy r \<Longrightarrow> strip r = r"
proof (cases "r = []")
  case True
  then show ?thesis by (simp add: strip_def lstrip_def rstrip_def)
next
  case False
  assume t: "tidy r"
  from t False have h: "\<not> is_space (hd r)" by (rule tidy_hd)
  from t False have l: "\<not> is_space (last r)" by (rule tidy_last)
  from h False have 1: "dropWhile is_space r = r" by (cases r) auto
  from l False have 2: "dropWhile is_space (rev r) = rev r"
    by (cases "rev r") (auto simp: last_rev hd_rev[symmetric])
  show ?thesis by (simp add: strip_def lstrip_def rstrip_def 1 2)
qed


lemma sub_ws_Nil_iff: "sub_ws t = [] \<longleftrightarrow> t = []"
  by (cases t) auto

lemma dropWhile_last_keep:
  "t \<noteq> [] \<Longrightarrow> \<not> P (last t) \<Longrightarrow> dropWhile P t \<noteq> [] \<and> last (dropWhile P t) = last t"
  by (induction t) (auto split: if_splits)

lemma sub_ws_hd: "t \<noteq> [] \<Longrightarrow> \<not> is_space (hd t) \<Longrightarrow> sub_ws t = hd t # sub_ws (tl t)"
  by (cases t) auto

lemma sub_ws_shape:
  "t = [] \<or> \<not> is_space (last t) \<Longrightarrow>
   (if t \<noteq> [] \<and> is_space (hd t)
    then \<exists>r. sub_ws t = CHR '' '' # r \<and> r \<noteq> [] \<and> tidy r
    else tidy (sub_ws t))"
proof (induction t rule: sub_ws.induct)
  case 1
  then show ?case by simp
next
  case (2 c cs)
  show ?case
  proof (cases "is_space c")
    case True
    let ?u = "dropWhile is_space cs"
    from 2(3) True have cs: "cs \<noteq> []" "\<not> is_space (last cs)" by (auto split: if_splits)
    then have u: "?u \<noteq> []" "last ?u = last cs"
      using dropWhile_last_keep[of cs is_space] by auto
    have hu: "\<not> is_space (hd ?u)" using u(1) hd_dropWhile by blast
    from 2(1)[OF True] u cs hu have "tidy (sub_ws ?u)" by auto
    with True u show ?thesis by (simp add: sub_ws_Nil_iff)
  next
    case False
    show ?thesis
    proof (cases cs)
      case Nil
      with False show ?thesis by simp
    next
      case (Cons d ds)
      with 2(3) have "\<not> is_space (last cs)" by auto
      with 2(2)[OF False] Cons
      have ih: "if is_space d then \<exists>r. sub_ws cs = CHR '' '' # r \<and> r \<noteq> [] \<and> tidy r
                else tidy (sub_ws cs)" by auto
      show ?thesis
      proof (cases "is_space d")
        case True
        with ih obtain r where "sub_ws cs = CHR '' '' # r" "r \<noteq> []" "tidy r" by auto
        with False show ?thesis by simp
      next
        case F2: False
        with ih have t: "tidy (sub_ws cs)" by simp
        from F2 Cons have s: "sub_ws cs = d # sub_ws ds" by simp
        from F2 have "d \<noteq> CHR '' ''" using space_is_space by auto
        with t s False show ?thesis by simp
      qed
    qed
  qed
qed

lemma strip_ends:
  "strip x = [] \<or> (\<not> is_space (hd (strip x)) \<and> \<not> is_space (last (strip x)))"
proof (cases "strip x = []")
  case False
  let ?l = "dropWhile is_space x"
  let ?r = "dropWhile is_space (rev ?l)"
  have sx: "strip x = rev ?r" by (simp add: strip_def rstrip_def lstrip_def)
  from False have r: "?r \<noteq> []" by (simp add: sx)
  then have "\<not> is_space (hd ?r)" using hd_dropWhile by blast
  then have la: "\<not> is_space (last (strip x))"
    using r by (simp add: sx last_rev)
  have l: "?l \<noteq> []" using r by (cases "?l = []") simp_all
  then have hl: "\<not> is_space (hd ?l)" using hd_dropWhile by blast
  then have "\<not> is_space (last (rev ?l))" using l by (simp add: last_rev)
  then have "last ?r = last (rev ?l)"
    using l dropWhile_last_keep[of "rev ?l" is_space] by simp
  then have "hd (strip x) = hd ?l" using l r by (simp add: sx hd_rev last_rev)
  with hl la show ?thesis by simp
qed simp

lemma tidy_normalize_text: "tidy (normalize_text x)"
  using sub_ws_shape[of "strip x"] strip_ends[of x]
  by (auto simp: normalize_text_def split: if_splits)

text \<open>
  Claim C9. The text normaliser is idempotent: normalising a normalised text gives the
  same text, for every string. (\<open>normalize_text\<close> trims whitespace from both ends and
  turns every run of whitespace, newlines included, into one space.)
\<close>

theorem normalize_text_idempotent:
  "normalize_text (normalize_text x) = normalize_text x"
proof -
  have t: "tidy (normalize_text x)" by (rule tidy_normalize_text)
  have "normalize_text (normalize_text x) = sub_ws (strip (normalize_text x))"
    by (simp add: normalize_text_def)
  also have "\<dots> = sub_ws (normalize_text x)" using t by (simp add: tidy_strip)
  also have "\<dots> = normalize_text x" using t by (rule tidy_sub_ws)
  finally show ?thesis .
qed

section \<open>The record builder\<close>




section \<open>What a match binds\<close>







section \<open>Ticket identifiers of matched lines\<close>


















section \<open>The rounds of the loop\<close>







text \<open>What one round of the loop does, by the outcome of the matcher.\<close>

lemma process_email_skip:
  "\<not> contains ''rating'' (lower (subject_of e)) \<Longrightarrow> process_email e st = Inr st"
  by (simp add: process_email_def)






section \<open>Skipped and unmatched notifications\<close>

lemma run_loop_skip:
  "\<not> contains ''rating'' (lower (subject_of e)) \<Longrightarrow>
     run_loop (xs @ e # ys) st = run_loop (xs @ ys) st"
proof (induction xs arbitrary: st)
  case Nil
  then show ?case by (simp add: process_email_skip)
next
  case (Cons x xs)
  then show ?case by (cases "process_email x st") simp_all
qed

text \<open>
  Claim C7. A notification whose subject does not contain \<^verbatim>\<open>rating\<close> (in any letter case)
  leaves the state of the loop as it is, the record store and the list of unmatched
  tickets alike; and taking such a notification out of a batch does not change the
  records the pipeline returns.
\<close>

theorem skip_without_rating:
  "\<not> contains ''rating'' (lower (subject_of e)) \<Longrightarrow>
     process_email e st = Inr st
     \<and> parse_crewhu_data (xs @ e # ys) = parse_crewhu_data (xs @ ys)"
  by (simp add: process_email_def run_loop_skip parse_crewhu_data_def)

theorem skip_without_rating_witness:
  "\<not> contains ''rating'' (lower (subject_of
        \<lparr>Subject = Some ''Weekly report'',
         FullBody = Some ''Acme gave a Good rating to Bob for ticket# 7 (x)''\<rparr>))
   \<and> process_email
        \<lparr>Subject = Some ''Weekly report'',
         FullBody = Some ''Acme gave a Good rating to Bob for ticket# 7 (x)''\<rparr>
        \<lparr>surveys = [], missed = [5]\<rparr>
       = Inr \<lparr>surveys = [], missed = [5]\<rparr>
   \<and> parse_crewhu_data
        ([] @ \<lparr>Subject = Some ''Weekly report'',
                FullBody = Some ''Acme gave a Good rating to Bob for ticket# 7 (x)''\<rparr> # [])
       = parse_crewhu_data ([] @ [])"
proof -
  have h: "\<not> contains ''rating'' (lower (subject_of
        \<lparr>Subject = Some ''Weekly report'',
         FullBody = Some ''Acme gave a Good rating to Bob for ticket# 7 (x)''\<rparr>))"
    by code_simp
  from skip_without_rating[OF h, of "\<lparr>surveys = [], missed = [5]\<rparr>" "[]" "[]"] h
  show ?thesis by simp
qed



section \<open>The example of the specification\<close>

text \<open>
  Claim C2. On the single notification with subject \<^verbatim>\<open>New Rating!\<close> and the body of the
  specification's example, the pipeline returns exactly one record: ticket number 42, the
  summary sentence with customer, company, rating, employee, category and description
  filled in, and the feedback \<^verbatim>\<open>Fast fix, thanks!\<close>.
\<close>

theorem end_to_end_example:
  "parse_crewhu_data
     [\<lparr>Subject = Some ''New Rating!'',
       FullBody = Some
         (''Jane from Acme gave a Positive rating to Bob for Speed on ticket# 42 (great job)''
          @ [CHR 0x0A] @ ''Customer feedback: Fast fix, thanks!''
          @ [CHR 0x0A, CHR 0x0A] @ ''Regards,'')\<rparr>]
   = Inr [\<lparr>ticket_number = 42,
       summary = ''Jane from Acme just gave a Positive rating to Bob for Speed on ticket# 42 (great job).'',
       customer_feedback = ''Fast fix, thanks!''\<rparr>]"
  by code_simp

section \<open>The store: one record for a ticket, the last one\<close>










section \<open>The order of the output\<close>



section \<open>The feedback extractor\<close>

lemma rep_greedy_Nil:
  "rep Greedy k n r acc p [] =
     (case rmatch r p [] of
        None \<Rightarrow> None
      | Some (g, rest) \<Rightarrow> Some (bind n (rev acc) g, rest))"
  by simp

lemma rep_greedy_Cons:
  "rep Greedy k n r acc p (c # cs) =
     (case (if in_class k c then rep Greedy k n r (c # acc) (Some c) cs else None) of
        Some m \<Rightarrow> Some m
      | None \<Rightarrow>
          (case rmatch r p (c # cs) of
             None \<Rightarrow> None
           | Some (g, rest) \<Rightarrow> Some (bind n (rev acc) g, rest)))"
  by (subst rep.simps) simp

lemma rep_any_all:
  "rep Greedy AnyChar n [] acc p s = Some (bind n (rev acc @ s) [], [])"
proof (induction s arbitrary: acc p)
  case Nil
  then show ?case by (simp add: rep_greedy_Nil del: rep.simps)
next
  case (Cons c cs)
  show ?case by (simp add: rep_greedy_Cons Cons del: rep.simps)
qed

lemma rep_space_then_any:
  "rep Greedy Space None [Star (Some k) AnyChar Greedy] acc p s
     = Some ([(k, dropWhile is_space s)], [])"
proof (induction s arbitrary: acc p)
  case Nil
  then show ?case by (simp add: rep_greedy_Nil rep_any_all del: rep.simps)
next
  case (Cons c cs)
  show ?case by (simp add: rep_greedy_Cons Cons rep_any_all del: rep.simps)
qed

text \<open>The pattern \<^verbatim>\<open>\s+\<close> of the normaliser matches a maximal run of whitespace, which is
  what \<open>sub_ws\<close> replaces by one space.\<close>

lemma rep_space_run:
  "rep Greedy Space None [] acc p s = Some ([], dropWhile is_space s)"
proof (induction s arbitrary: acc p)
  case Nil
  then show ?case by (simp add: rep_greedy_Nil del: rep.simps)
next
  case (Cons c cs)
  show ?case by (simp add: rep_greedy_Cons Cons del: rep.simps)
qed

lemma rmatch_space_run:
  "rmatch [Plus None Space Greedy] p s =
     (case s of
        [] \<Rightarrow> None
      | c # cs \<Rightarrow> if is_space c then Some ([], dropWhile is_space cs) else None)"
  by (simp add: rep_space_run split: list.splits del: rep.simps)

lemma eat_ci:
  "eat True l p s =
     (if starts_with (lower l) (lower s)
      then Some (if l = [] then p else Some (s ! (length l - 1)), drop (length l) s)
      else None)"
proof (induction l arbitrary: p s)
  case Nil
  then show ?case by (simp add: lower_def)
next
  case (Cons a l)
  show ?case
  proof (cases s)
    case Nil
    then show ?thesis by (simp add: lower_def)
  next
    case c: (Cons c cs)
    show ?thesis
      using Cons.IH[of "Some c" cs] c
      by (cases l) (auto simp: lower_def)
  qed
qed

lemma marker_lower: "lower ''Customer feedback:'' = MARKER"
  by code_simp

lemma marker_length: "length MARKER = length ''Customer feedback:''"
  by (simp add: MARKER_def)

lemma rmatch_feedback:
  "rmatch FEEDBACK_PATTERN p s =
     (if starts_with MARKER (lower s)
      then Some ([(GNum 1, dropWhile is_space (drop (length MARKER) s))], [])
      else None)"
  by (simp add: FEEDBACK_PATTERN_def eat_ci marker_lower marker_length rep_space_then_any
           del: starts_with.simps rep.simps)

lemma search_ci_marker:
  assumes r: "\<And>p s. rmatch items p s =
                 (if starts_with mk (lower s) then Some ([(k, f (drop (length mk) s))], [])
                  else None)"
  shows "map_option grps (search_from items bef s) =
           (if contains mk (lower s) then Some [(k, f (after_first mk s))] else None)"
proof (induction s arbitrary: bef)
  case Nil
  show ?case
    by (subst search_from.simps) (cases mk; simp add: r lower_def del: search_from.simps)
next
  case (Cons c cs)
  show ?case
  proof (cases "starts_with mk (lower (c # cs))")
    case True
    then have "contains mk (lower (c # cs))" by (simp add: lower_def)
    with True show ?thesis
      by (subst search_from.simps) (simp add: r del: search_from.simps)
  next
    case False
    then have c: "contains mk (lower (c # cs)) \<longleftrightarrow> contains mk (lower cs)"
      by (simp add: lower_def)
    from False show ?thesis
      by (subst search_from.simps) (simp add: r Cons c del: search_from.simps)
  qed
qed

lemma feedback_group1:
  "map_option (\<lambda>m. group m 1) (re_search FEEDBACK_PATTERN b) =
     (if has_marker b then Some (Some (lstrip (after_marker b))) else None)"
proof -
  have "map_option grps (re_search FEEDBACK_PATTERN b) =
          (if contains MARKER (lower b)
           then Some [(GNum 1, dropWhile is_space (after_first MARKER b))] else None)"
    unfolding re_search_def by (rule search_ci_marker) (rule rmatch_feedback)
  then show ?thesis
    by (cases "re_search FEEDBACK_PATTERN b")
       (auto simp: has_marker_def after_marker_def group_def lstrip_def split: if_splits)
qed

lemma strip_lstrip: "strip (lstrip x) = strip x"
  by (simp add: strip_def lstrip_def)

lemma feedback_text_lstrip: "feedback_text (lstrip x) = feedback_text x"
  by (simp add: feedback_text_def strip_lstrip)

lemma extract_feedback_eq:
  "extract_feedback b =
     Inr (if \<not> has_marker b \<or> feedback_text (after_marker b) = [] then NO_FEEDBACK
          else feedback_text (after_marker b))"
proof (cases "re_search FEEDBACK_PATTERN b")
  case None
  with feedback_group1[of b] have "\<not> has_marker b" by (simp split: if_splits)
  with None show ?thesis by (simp add: extract_feedback_def)
next
  case (Some m)
  with feedback_group1[of b] have h: "has_marker b"
    and g: "group m 1 = Some (lstrip (after_marker b))" by (simp_all split: if_splits)
  with Some show ?thesis
    by (simp add: extract_feedback_def feedback_text_lstrip Let_def)
qed

text \<open>
  Claim C6 says that \<open>extract_feedback\<close> returns the sentinel \<^verbatim>\<open>No feedback provided.\<close>
  exactly when the body has no marker or the text kept after the marker is empty. A body
  whose feedback reads \<^verbatim>\<open>No feedback provided.\<close> has the marker and a non-empty text,
  and the result is the sentinel string all the same.
\<close>

theorem feedback_sentinel_counterexample:
  "has_marker ''Customer feedback: No feedback provided.''
   \<and> feedback_text (after_marker ''Customer feedback: No feedback provided.'') \<noteq> []
   \<and> extract_feedback ''Customer feedback: No feedback provided.'' = Inr NO_FEEDBACK"
  by code_simp

text \<open>
  Claim C6, amended. \<open>extract_feedback\<close> returns the sentinel when the body has no
  \<^verbatim>\<open>Customer feedback:\<close> marker (in any letter case) or when the text kept after the
  first marker (quotes stripped, cut at the first blank line and at the boundary tokens,
  lines trimmed and joined) is empty; otherwise it returns that non-empty text. So the
  result is the sentinel string exactly when the marker is missing, the text is empty, or
  the text itself is the sentinel string.
\<close>

theorem feedback_sentinel:
  "extract_feedback b =
     Inr (if \<not> has_marker b \<or> feedback_text (after_marker b) = [] then NO_FEEDBACK
          else feedback_text (after_marker b))
   \<and> (extract_feedback b = Inr NO_FEEDBACK \<longleftrightarrow>
        \<not> has_marker b \<or> feedback_text (after_marker b) = []
        \<or> feedback_text (after_marker b) = NO_FEEDBACK)"
  by (auto simp: extract_feedback_eq)

theorem feedback_sentinel_witness:
  "has_marker ''Customer Feedback: Fast fix''
   \<and> feedback_text (after_marker ''Customer Feedback: Fast fix'') = ''Fast fix''
   \<and> extract_feedback ''Customer Feedback: Fast fix'' = Inr ''Fast fix''
   \<and> extract_feedback ''Customer Feedback: Fast fix'' \<noteq> Inr NO_FEEDBACK"
proof -
  have h: "has_marker ''Customer Feedback: Fast fix''" by code_simp
  have t: "feedback_text (after_marker ''Customer Feedback: Fast fix'') = ''Fast fix''"
    by code_simp
  have n: "''Fast fix'' \<noteq> NO_FEEDBACK" by code_simp
  from feedback_sentinel[of "''Customer Feedback: Fast fix''"] h t n
  show ?thesis by simp
qed

section \<open>The order of lines and templates\<close>

lemma try_patterns_first:
  "try_patterns ps l =
     (case filter (\<lambda>p. re_search p l \<noteq> None) ps of
        [] \<Rightarrow> None
      | p # _ \<Rightarrow> map_option (match_dict p) (re_search p l))"
  by (induction ps) (auto split: option.splits)

lemma matching_pairs_Cons:
  "matching_pairs (l # ls) =
     map (Pair l) (filter (\<lambda>p. re_search p l \<noteq> None) RATING_PATTERNS) @ matching_pairs ls"
  by (simp add: matching_pairs_def)

lemma scan_lines_first:
  "scan_lines ls =
     (case matching_pairs ls of
        [] \<Rightarrow> None
      | (l, p) # _ \<Rightarrow> map_option (match_dict p) (re_search p l))"
proof (induction ls)
  case Nil
  then show ?case by (simp add: matching_pairs_def)
next
  case (Cons l ls)
  show ?case
  proof (cases "filter (\<lambda>p. re_search p l \<noteq> None) RATING_PATTERNS")
    case Nil
    then show ?thesis
      by (simp add: try_patterns_first matching_pairs_Cons Cons)
  next
    case (Cons p ps)
    then have "p \<in> set (filter (\<lambda>p. re_search p l \<noteq> None) RATING_PATTERNS)" by simp
    then have "re_search p l \<noteq> None" by simp
    with Cons show ?thesis
      by (auto simp add: try_patterns_first matching_pairs_Cons)
  qed
qed

lemma try_patterns_None:
  "try_patterns ps l = None \<longleftrightarrow> (\<forall>p\<in>set ps. re_search p l = None)"
  by (induction ps) (auto split: option.splits)

lemma scan_lines_skip:
  "\<forall>l'\<in>set before. \<forall>p\<in>set RATING_PATTERNS. re_search p l' = None \<Longrightarrow>
     scan_lines (before @ ls) = scan_lines ls"
proof (induction before)
  case Nil
  then show ?case by simp
next
  case (Cons a before)
  then have "try_patterns RATING_PATTERNS a = None" by (simp add: try_patterns_None)
  with Cons show ?case by simp
qed

lemma rating_patterns_front:
  "RATING_PATTERNS = (RATING_PATTERNS ! 0) # (RATING_PATTERNS ! 1) # drop 2 RATING_PATTERNS"
  by (simp add: RATING_PATTERNS_def)

lemma try_patterns_front:
  "try_patterns RATING_PATTERNS l =
     (case re_search (RATING_PATTERNS ! 0) l of
        Some m \<Rightarrow> Some (match_dict (RATING_PATTERNS ! 0) m)
      | None \<Rightarrow>
          (case re_search (RATING_PATTERNS ! 1) l of
             Some m \<Rightarrow> Some (match_dict (RATING_PATTERNS ! 1) m)
           | None \<Rightarrow> try_patterns (drop 2 RATING_PATTERNS) l))"
  by (subst rating_patterns_front) (simp only: try_patterns.simps)

text \<open>
  Claim C3 says that the first matching pair of a line and a template gives the result,
  and in particular that a line that matches a template with customer and company and a
  template with the company only gets the result with the customer. The fourth template
  (customer and company, no categories) stands after the third (company only, with
  categories): a line of two sentences matches both of them and neither of the first two,
  and the result is the third template's, without a customer.
\<close>

theorem first_line_first_template_counterexample:
  "cleaned_lines ''Acme gave a Good rating to Al for Speed on ticket# 1 (a). Jo from Acme gave a Bad rating to Al for ticket# 2 (b).''
     = [''Acme gave a Good rating to Al for Speed on ticket# 1 (a). Jo from Acme gave a Bad rating to Al for ticket# 2 (b).'']
   \<and> map_option (match_dict (RATING_PATTERNS ! 3))
        (re_search (RATING_PATTERNS ! 3)
           ''Acme gave a Good rating to Al for Speed on ticket# 1 (a). Jo from Acme gave a Bad rating to Al for ticket# 2 (b).'')
       = Some [(''customer'', Some ''Acme gave a Good rating to Al for Speed on ticket# 1 (a). Jo''),
               (''company'', Some ''Acme''), (''rating'', Some ''Bad''),
               (''employee'', Some ''Al''), (''ticket_id'', Some ''2''),
               (''ticket_desc'', Some ''b'')]
   \<and> map_option (match_dict (RATING_PATTERNS ! 2))
        (re_search (RATING_PATTERNS ! 2)
           ''Acme gave a Good rating to Al for Speed on ticket# 1 (a). Jo from Acme gave a Bad rating to Al for ticket# 2 (b).'')
       = Some [(''company'', Some ''Acme''), (''rating'', Some ''Good''),
               (''employee'', Some ''Al''), (''categories'', Some ''Speed''),
               (''ticket_id'', Some ''1''), (''ticket_desc'', Some ''a'')]
   \<and> match_rating_line
        ''Acme gave a Good rating to Al for Speed on ticket# 1 (a). Jo from Acme gave a Bad rating to Al for ticket# 2 (b).''
       = Some [(''company'', Some ''Acme''), (''rating'', Some ''Good''),
               (''employee'', Some ''Al''), (''categories'', Some ''Speed''),
               (''ticket_id'', Some ''1''), (''ticket_desc'', Some ''a'')]"
  by code_simp

text \<open>
  Claim C3, amended. \<open>match_rating_line\<close> returns the normalised groups of the first pair
  of a retained line and a template that matches, lines in their order and the six
  templates in the order of the list on each line. In particular, on a line with no
  matching line before it, a match of the first template gives the result, and so does a
  match of the second when the first does not match: the two templates with customer,
  company and categories come before every template with the company only.
\<close>

theorem first_line_first_template:
  "match_rating_line body =
     (case matching_pairs (cleaned_lines body) of
        [] \<Rightarrow> None
      | (l, p) # _ \<Rightarrow> map_option (match_dict p) (re_search p l))
   \<and> (cleaned_lines body = before @ l # ls
        \<and> (\<forall>l'\<in>set before. \<forall>p\<in>set RATING_PATTERNS. re_search p l' = None) \<longrightarrow>
        (re_search (RATING_PATTERNS ! 0) l = Some m \<longrightarrow>
           match_rating_line body = Some (match_dict (RATING_PATTERNS ! 0) m))
        \<and> (re_search (RATING_PATTERNS ! 0) l = None
             \<and> re_search (RATING_PATTERNS ! 1) l = Some m \<longrightarrow>
           match_rating_line body = Some (match_dict (RATING_PATTERNS ! 1) m)))"
proof (intro conjI impI)
  show "match_rating_line body =
     (case matching_pairs (cleaned_lines body) of
        [] \<Rightarrow> None
      | (l, p) # _ \<Rightarrow> map_option (match_dict p) (re_search p l))"
    unfolding match_rating_line_def by (rule scan_lines_first)
next
  assume a: "cleaned_lines body = before @ l # ls
        \<and> (\<forall>l'\<in>set before. \<forall>p\<in>set RATING_PATTERNS. re_search p l' = None)"
    and m: "re_search (RATING_PATTERNS ! 0) l = Some m"
  from a have "match_rating_line body = scan_lines (l # ls)"
    by (simp add: match_rating_line_def scan_lines_skip)
  with m show "match_rating_line body = Some (match_dict (RATING_PATTERNS ! 0) m)"
    by (simp add: try_patterns_front)
next
  assume a: "cleaned_lines body = before @ l # ls
        \<and> (\<forall>l'\<in>set before. \<forall>p\<in>set RATING_PATTERNS. re_search p l' = None)"
    and m: "re_search (RATING_PATTERNS ! 0) l = None
             \<and> re_search (RATING_PATTERNS ! 1) l = Some m"
  from a have "match_rating_line body = scan_lines (l # ls)"
    by (simp add: match_rating_line_def scan_lines_skip)
  with m show "match_rating_line body = Some (match_dict (RATING_PATTERNS ! 1) m)"
    by (simp add: try_patterns_front)
qed

theorem first_line_first_template_witness:
  "cleaned_lines ''Jane from Acme gave a Positive rating to Bob for Speed on ticket# 42 (great job)''
     = [] @ ''Jane from Acme gave a Positive rating to Bob for Speed on ticket# 42 (great job)'' # []
   \<and> re_search (RATING_PATTERNS ! 0)
        ''Jane from Acme gave a Positive rating to Bob for Speed on ticket# 42 (great job)''
       = Some \<lparr>pre = [],
                 grps = [(GName ''customer'', ''Jane''), (GName ''company'', ''Acme''),
                         (GName ''rating'', ''Positive''), (GName ''employee'', ''Bob''),
                         (GName ''categories'', ''Speed''), (GName ''ticket_id'', ''42''),
                         (GName ''ticket_desc'', ''great job'')],
                 post = []\<rparr>
   \<and> map_option (match_dict (RATING_PATTERNS ! 2))
        (re_search (RATING_PATTERNS ! 2)
           ''Jane from Acme gave a Positive rating to Bob for Speed on ticket# 42 (great job)'')
       = Some [(''company'', Some ''Jane from Acme''), (''rating'', Some ''Positive''),
               (''employee'', Some ''Bob''), (''categories'', Some ''Speed''),
               (''ticket_id'', Some ''42''), (''ticket_desc'', Some ''great job'')]
   \<and> match_rating_line
        ''Jane from Acme gave a Positive rating to Bob for Speed on ticket# 42 (great job)''
       = Some [(''customer'', Some ''Jane''), (''company'', Some ''Acme''),
               (''rating'', Some ''Positive''), (''employee'', Some ''Bob''),
               (''categories'', Some ''Speed''), (''ticket_id'', Some ''42''),
               (''ticket_desc'', Some ''great job'')]"
proof -
  let ?l = "''Jane from Acme gave a Positive rating to Bob for Speed on ticket# 42 (great job)''"
  let ?m = "\<lparr>pre = [],
                 grps = [(GName ''customer'', ''Jane''), (GName ''company'', ''Acme''),
                         (GName ''rating'', ''Positive''), (GName ''employee'', ''Bob''),
                         (GName ''categories'', ''Speed''), (GName ''ticket_id'', ''42''),
                         (GName ''ticket_desc'', ''great job'')],
                 post = []\<rparr>"
  have c: "cleaned_lines ?l = [] @ ?l # []" by code_simp
  have m: "re_search (RATING_PATTERNS ! 0) ?l = Some ?m" by code_simp
  have o: "map_option (match_dict (RATING_PATTERNS ! 2)) (re_search (RATING_PATTERNS ! 2) ?l)
       = Some [(''company'', Some ''Jane from Acme''), (''rating'', Some ''Positive''),
               (''employee'', Some ''Bob''), (''categories'', Some ''Speed''),
               (''ticket_id'', Some ''42''), (''ticket_desc'', Some ''great job'')]"
    by code_simp
  have d: "match_dict (RATING_PATTERNS ! 0) ?m
       = [(''customer'', Some ''Jane''), (''company'', Some ''Acme''),
               (''rating'', Some ''Positive''), (''employee'', Some ''Bob''),
               (''categories'', Some ''Speed''), (''ticket_id'', Some ''42''),
               (''ticket_desc'', Some ''great job'')]"
    by code_simp
  from first_line_first_template[of ?l "[]" ?l "[]" ?m, THEN conjunct2] c m
  have "match_rating_line ?l = Some (match_dict (RATING_PATTERNS ! 0) ?m)"
    by simp
  with c m o d show ?thesis by (simp only: simp_thms)
qed

end
